theory Spec2Isabelle
  imports Main "HOL-Library.Sublist"
begin

section \<open>JavaScript values used by the engine\<close>

text \<open>
  A JavaScript string is a sequence of UTF-16 code units; \<open>s.length\<close> counts them.
  A code unit is modelled as a natural number, so that the character classes of
  \<open>cleanJson\<close> (control characters, white space beyond Latin-1) can be written as the
  source has them. \<open>js\<close> embeds an ASCII literal.
\<close>

type_synonym jsstring = "nat list"

definition js :: "string \<Rightarrow> jsstring" where
  "js s = map of_char s"

text \<open>
  Truthiness of an optional string, as tested by \<open>if (x)\<close>, \<open>!x\<close> and \<open>x || d\<close>:
  \<open>undefined\<close> and the empty string are falsy.
\<close>

definition truthy :: "jsstring option \<Rightarrow> bool" where
  "truthy x = (case x of None \<Rightarrow> False | Some s \<Rightarrow> s \<noteq> [])"

text \<open>\<open>s.includes(k)\<close>: \<open>k\<close> occurs in \<open>s\<close> as a contiguous run.\<close>

fun includes_str :: "jsstring \<Rightarrow> jsstring \<Rightarrow> bool" where
  "includes_str [] k = (k = [])"
| "includes_str (c # s) k = (prefix k (c # s) \<or> includes_str s k)"

text \<open>
  \<open>xs.findIndex(p)\<close> returns the position of the first element satisfying \<open>p\<close>, or
  \<open>-1\<close>; the model returns \<open>None\<close> for \<open>-1\<close>.
\<close>

fun findIndex :: "('a \<Rightarrow> bool) \<Rightarrow> 'a list \<Rightarrow> nat option" where
  "findIndex p [] = None"
| "findIndex p (x # xs) =
     (if p x then Some 0 else map_option Suc (findIndex p xs))"

text \<open>
  \<open>xs.slice(0, e)\<close> for an integer \<open>e\<close>: a negative end counts from the end of the
  array.
\<close>

definition slice0 :: "'a list \<Rightarrow> int \<Rightarrow> 'a list" where
  "slice0 xs e =
     (if e < 0 then take (nat (max (int (length xs) + e) 0)) xs else take (nat e) xs)"


section \<open>FallbackInvoker: \<open>withModelFallback\<close> (services/geminiService.ts)\<close>



text \<open>
  \<open>obj[key]\<close> on a plain object (an object literal, or the result of spreading into
  one): the object's own property if it has one, otherwise what it inherits from
  \<open>Object.prototype\<close>, otherwise \<open>undefined\<close>. Every inherited value is a function or,
  for \<open>__proto__\<close>, the prototype object: truthy, and not an array.
\<close>

definition object_prototype_keys :: "jsstring list" where
  "object_prototype_keys =
     map js [''constructor'', ''hasOwnProperty'', ''isPrototypeOf'', ''propertyIsEnumerable'',
             ''toLocaleString'', ''toString'', ''valueOf'', ''__proto__'',
             ''__defineGetter__'', ''__defineSetter__'', ''__lookupGetter__'',
             ''__lookupSetter__'']"

datatype 'v property = Own 'v | Inherited | Missing

definition property_of :: "(jsstring \<rightharpoonup> 'v) \<Rightarrow> jsstring \<Rightarrow> 'v property" where
  "property_of obj key =
     (case obj key of
        Some v \<Rightarrow> Own v
      | None \<Rightarrow> if key \<in> set object_prototype_keys then Inherited else Missing)"






section \<open>ResponseNormalizer: \<open>cleanJson\<close> (services/geminiService.ts)\<close>

text \<open>
  The class \<open>\s\<close> of a regular expression and the characters removed by \<open>trim()\<close>
  are the same set: TAB, LF, VT, FF, CR, SP, NBSP, U+1680, U+2000 to U+200A, U+2028,
  U+2029, U+202F, U+205F, U+3000 and U+FEFF.
\<close>

definition is_space :: "nat \<Rightarrow> bool" where
  "is_space c =
     (c \<in> set [9, 10, 11, 12, 13, 32, 160, 5760, 8232, 8233, 8239, 8287, 12288, 65279]
      \<or> (8192 \<le> c \<and> c \<le> 8202))"

definition trim :: "jsstring \<Rightarrow> jsstring" where
  "trim s = rev (dropWhile is_space (rev (dropWhile is_space s)))"

text \<open>The class \<open>[\x00-\x09\x0B-\x1F\x7F]\<close>.\<close>

definition is_control :: "nat \<Rightarrow> bool" where
  "is_control c = (c \<le> 9 \<or> (11 \<le> c \<and> c \<le> 31) \<or> c = 127)"

text \<open>
  \<open>text.replace(/```json\s*|```/gi, '')\<close>: scanning from the left, three backquotes
  followed by \<open>json\<close> in any letter case are removed together with all white space
  after them; otherwise three backquotes alone are removed. Under the \<open>i\<close> flag only the
  ASCII letters of either case match \<open>j\<close>, \<open>s\<close>, \<open>o\<close>, \<open>n\<close>.
\<close>

definition fence :: jsstring where
  "fence = [96, 96, 96]"

definition lower_ascii :: "nat \<Rightarrow> nat" where
  "lower_ascii c = (if 65 \<le> c \<and> c \<le> 90 then c + 32 else c)"

function strip_fences :: "jsstring \<Rightarrow> jsstring" where
  "strip_fences [] = []"
| "strip_fences (c # cs) =
     (if prefix fence (c # cs) then
        (if map lower_ascii (take 4 (drop 3 (c # cs))) = js ''json''
         then strip_fences (dropWhile is_space (drop 7 (c # cs)))
         else strip_fences (drop 3 (c # cs)))
      else c # strip_fences cs)"
  by pat_completeness auto
termination
  by (relation "measure length")
     (auto intro: le_less_trans [OF length_dropWhile_le])

text \<open>\<open>s.indexOf(x)\<close> and \<open>s.lastIndexOf(x)\<close> for a single character, \<open>-1\<close> when absent.\<close>

fun indexOf :: "'a list \<Rightarrow> 'a \<Rightarrow> int" where
  "indexOf [] x = - 1"
| "indexOf (y # ys) x =
     (if y = x then 0 else (let i = indexOf ys x in if i = - 1 then - 1 else i + 1))"

definition lastIndexOf :: "'a list \<Rightarrow> 'a \<Rightarrow> int" where
  "lastIndexOf xs x =
     (let i = indexOf (rev xs) x in if i = - 1 then - 1 else int (length xs) - 1 - i)"

text \<open>
  \<open>s.substring(a, b)\<close>: both arguments are clamped into \<open>[0, s.length]\<close> and swapped
  when \<open>a > b\<close>.
\<close>

definition substring :: "'a list \<Rightarrow> int \<Rightarrow> int \<Rightarrow> 'a list" where
  "substring s a b =
     (let a' = min (max a 0) (int (length s));
          b' = min (max b 0) (int (length s));
          from = min a' b';
          to = max a' b'
      in take (nat to - nat from) (drop (nat from) s))"

text \<open>
  The choice of \<open>startIndex\<close>, \<open>endIndex\<close> and \<open>isArray\<close>; the code units are
  \<open>{\<close> 123, \<open>}\<close> 125, \<open>[\<close> 91 and \<open>]\<close> 93.
\<close>

definition bracket_pair :: "jsstring \<Rightarrow> int \<times> int \<times> bool" where
  "bracket_pair cleaned =
     (let firstBrace = indexOf cleaned 123;
          firstBracket = indexOf cleaned 91
      in if firstBrace \<noteq> - 1 \<and> (firstBracket = - 1 \<or> firstBrace < firstBracket)
         then (firstBrace, lastIndexOf cleaned 125, False)
         else if firstBracket \<noteq> - 1
         then (firstBracket, lastIndexOf cleaned 93, True)
         else (- 1, - 1, False))"

definition cleanJson :: "jsstring \<Rightarrow> jsstring" where
  "cleanJson text =
     (if text = [] then js ''{}''
      else
        let cleaned = trim (strip_fences text);
            (startIndex, endIndex, isArray) = bracket_pair cleaned
        in if startIndex \<noteq> - 1 \<and> endIndex \<noteq> - 1 \<and> endIndex \<ge> startIndex
           then
             let cleaned' = filter (\<lambda>c. \<not> is_control c)
                              (substring cleaned startIndex (endIndex + 1));
                 trimmed = trim cleaned'
             in if trimmed \<noteq> [] then trimmed
                else if isArray then js ''[]'' else js ''{}''
           else js ''{}'')"

section \<open>Data model of the game engine\<close>

text \<open>
  The records keep the fields that the handlers of \<open>useGameEngine\<close> read or write in
  the code modelled below. Fields that every handler copies unchanged (images, avatars,
  world settings, narrative mode, skills) are left out. An optional field
  (\<open>f?: T\<close>, or one guarded by \<open>||\<close> or \<open>?.\<close> in the code) has an option type, and
  \<open>undefined\<close> is \<open>None\<close>. Numbers are integers.

  The sources hold three versions of the hook. The handlers below are those of the
  version with the chapter bookkeeping. In the version under \<open>hooks/\<close> the functions
  \<open>handleRegenerate\<close> and \<open>handleSwitchVersion\<close>, the cut of the history and the
  auto-save of \<open>handleChoice\<close> read the same, while \<open>handleChoice\<close> and
  \<open>handleStartGame\<close> leave the counters and the status of the chapters alone.
\<close>

datatype chapter_status = Pending | Active | Completed

datatype event_status = Event_pending | Event_completed

datatype save_type = AUTO | MANUAL | SETUP

datatype game_state = LANDING | SETUP_SCREEN | LOADING | PLAYING

datatype regeneration_mode = Full | Text_only | Choices


record tracked_stats =
  currentWordCount :: int
  eventsTriggered :: int
  interactionsCount :: int

record completion_criteria =
  minKeyEvents :: int
  minInteractions :: int

record plot_chapter =
  chapter_id :: jsstring
  title :: jsstring
  summary :: jsstring
  targetWordCount :: int
  keyEvents :: jsstring
  keyCharacters :: "jsstring list option"
  pacing :: jsstring
  status :: chapter_status
  trackedStats :: "tracked_stats option"
  completionCriteria :: "completion_criteria option"
  prerequisites :: "jsstring list"
  finishedTurnCount :: "int option"

record memory_state =
  memoryZone :: jsstring
  storyMemory :: jsstring
  longTermMemory :: jsstring
  coreMemory :: jsstring
  characterRecord :: jsstring
  inventory :: jsstring

record segment_version =
  version_text :: jsstring
  version_choices :: "jsstring list"
  version_visualPrompt :: jsstring
  version_mood :: jsstring
  version_location :: "jsstring option"

record story_segment =
  segment_id :: jsstring
  segment_text :: jsstring
  choices :: "jsstring list"
  visualPrompt :: jsstring
  mood :: jsstring
  activeCharacterName :: "jsstring option"
  location :: "jsstring option"
  affinityChanges :: "(jsstring \<rightharpoonup> int) option"
  newMemories :: "memory_state option"
  triggeredEventId :: "jsstring option"
  chapterId :: "jsstring option"
  segment_storyName :: "jsstring option"
  causedBy :: "jsstring option"
  versions :: "segment_version list option"
  currentVersionIndex :: "int option"

record scheduled_event =
  event_id :: jsstring
  description :: jsstring
  event_status :: event_status
  createdTurn :: int

text \<open>
  The affinity of a character is a number until a value that is not a number has been
  added to it; from then on it is a string (\<open>Affinity_text\<close>).
\<close>

datatype affinity_value = Affinity int | Affinity_text

record supporting_character =
  character_id :: jsstring
  character_name :: jsstring
  affinity :: "affinity_value option"

record protagonist =
  name :: jsstring
  trait :: jsstring

record game_context =
  sessionId :: jsstring
  genre :: jsstring
  storyName :: "jsstring option"
  character :: protagonist
  supportingCharacters :: "supporting_character list"
  history :: "story_segment list"
  currentSegment :: "story_segment option"
  lastUpdated :: int
  memories :: memory_state
  scheduledEvents :: "scheduled_event list option"
  plotBlueprint :: "plot_chapter list option"

record saved_game =
  save_id :: jsstring
  save_sessionId :: jsstring
  save_storyName :: "jsstring option"
  storyId :: "jsstring option"
  parentId :: "jsstring option"
  timestamp :: int
  save_summary :: jsstring
  save_location :: "jsstring option"
  save_context :: game_context
  save_type :: save_type
  choiceText :: "jsstring option"
  turnCount :: int

text \<open>
  The state the hook holds between renders. \<open>storageWrites\<close> lists the records handed to
  \<open>StorageService.saveGame\<close>, oldest first; the storage service itself is outside the
  repository's sources.
\<close>

record engine =
  gameState :: game_state
  ctx :: game_context
  savedGames :: "saved_game list"
  isLoading :: bool
  error :: "jsstring option"
  lastAutoSaveId :: "jsstring option"
  storageWrites :: "saved_game list"

text \<open>
  What a handler gets from outside during one call: \<open>Date.now()\<close> and the results of
  \<open>generateUUID()\<close>.
\<close>

record env =
  now :: int
  sessionUUID :: jsstring
  saveUUID :: jsstring
  segmentUUID :: jsstring

text \<open>
  A call of \<open>GeminiService.advanceStory\<close>: the history, the user's choice, the blueprint
  and the mode it is given. Its other arguments are fields of the context and settings
  passed on as they are.
\<close>

record advance_request =
  request_history :: "story_segment list"
  request_userChoice :: jsstring
  request_plotBlueprint :: "plot_chapter list option"
  request_mode :: regeneration_mode

definition DEFAULT_MEMORY :: memory_state where
  "DEFAULT_MEMORY =
     \<lparr>memoryZone = [], storyMemory = [], longTermMemory = [], coreMemory = [],
      characterRecord = [], inventory = [26242, 26080, 29289, 21697]\<rparr>"

text \<open>\<open>context.plotBlueprint || []\<close> and \<open>context.scheduledEvents || []\<close>.\<close>

definition blueprint_of :: "game_context \<Rightarrow> plot_chapter list" where
  "blueprint_of c = (case plotBlueprint c of None \<Rightarrow> [] | Some b \<Rightarrow> b)"

definition events_of :: "game_context \<Rightarrow> scheduled_event list" where
  "events_of c = (case scheduledEvents c of None \<Rightarrow> [] | Some es \<Rightarrow> es)"

text \<open>\<open>x || d\<close> for a number \<open>x\<close>: zero is falsy.\<close>

definition num_or :: "int \<Rightarrow> int \<Rightarrow> int" where
  "num_or x d = (if x = 0 then d else x)"

section \<open>ChapterTracker\<close>

text \<open>
  \<open>chapter.trackedStats || {currentWordCount: 0, eventsTriggered: 0, interactionsCount: 0}\<close>
  and \<open>chapter.completionCriteria || {minKeyEvents: 1, minInteractions: 1}\<close>.
\<close>

definition stats_of :: "plot_chapter \<Rightarrow> tracked_stats" where
  "stats_of chapter =
     (case trackedStats chapter of
        None \<Rightarrow> \<lparr>currentWordCount = 0, eventsTriggered = 0, interactionsCount = 0\<rparr>
      | Some stats \<Rightarrow> stats)"

definition criteria_of :: "plot_chapter \<Rightarrow> completion_criteria" where
  "criteria_of chapter =
     (case completionCriteria chapter of
        None \<Rightarrow> \<lparr>minKeyEvents = 1, minInteractions = 1\<rparr>
      | Some criteria \<Rightarrow> criteria)"

text \<open>
  \<open>activeCharName && chapter.keyCharacters?.some(kc => activeCharName.includes(kc))\<close>
\<close>

definition isKeyInteraction :: "plot_chapter \<Rightarrow> story_segment \<Rightarrow> bool" where
  "isKeyInteraction chapter segment =
     (case activeCharacterName segment of
        None \<Rightarrow> False
      | Some activeCharName \<Rightarrow>
          activeCharName \<noteq> [] \<and>
          (case keyCharacters chapter of
             None \<Rightarrow> False
           | Some kcs \<Rightarrow> list_ex (\<lambda>kc. includes_str activeCharName kc) kcs))"

text \<open>
  The three counters after a segment; \<open>handleStartGame\<close> (for the opening) and
  \<open>handleChoice\<close> (for every turn) carry the same statements.
\<close>

definition track_stats :: "plot_chapter \<Rightarrow> story_segment \<Rightarrow> tracked_stats" where
  "track_stats chapter segment =
     (let stats = stats_of chapter;
          stats = stats\<lparr>currentWordCount :=
                          currentWordCount stats + int (length (segment_text segment))\<rparr>;
          stats = (if truthy (triggeredEventId segment)
                   then stats\<lparr>eventsTriggered := eventsTriggered stats + 1\<rparr> else stats);
          stats = (if isKeyInteraction chapter segment
                   then stats\<lparr>interactionsCount := interactionsCount stats + 1\<rparr> else stats)
      in stats)"

definition isComplete :: "plot_chapter \<Rightarrow> tracked_stats \<Rightarrow> bool" where
  "isComplete chapter stats =
     (let criteria = criteria_of chapter;
          isWordGoalReached = (currentWordCount stats \<ge> targetWordCount chapter);
          isEventGoalReached = (eventsTriggered stats \<ge> num_or (minKeyEvents criteria) 0);
          isInteractGoalReached = (interactionsCount stats \<ge> num_or (minInteractions criteria) 0)
      in isWordGoalReached \<and> isEventGoalReached \<and> isInteractGoalReached)"

text \<open>
  The blueprint update of \<open>handleChoice\<close>. The result carries \<open>activeChapterIndex\<close>
  (\<open>None\<close> for \<open>-1\<close>).
\<close>

definition updateBlueprint ::
  "plot_chapter list \<Rightarrow> story_segment \<Rightarrow> plot_chapter list \<times> nat option" where
  "updateBlueprint blueprint nextSegment =
     (case findIndex (\<lambda>c. status c = Active) blueprint of
        None \<Rightarrow> (blueprint, None)
      | Some activeChapterIndex \<Rightarrow>
          let chapter = blueprint ! activeChapterIndex;
              stats = track_stats chapter nextSegment;
              chapter = chapter\<lparr>trackedStats := Some stats\<rparr>
          in if isComplete chapter stats
             then
               let chapter = chapter\<lparr>status := Completed,
                       finishedTurnCount :=
                         Some ((case finishedTurnCount chapter of
                                  None \<Rightarrow> 0 | Some n \<Rightarrow> num_or n 0) + 1)\<rparr>;
                   updatedBlueprint =
                     (if activeChapterIndex + 1 < length blueprint
                      then blueprint[activeChapterIndex + 1 :=
                             (blueprint ! (activeChapterIndex + 1))\<lparr>status := Active\<rparr>]
                      else blueprint)
               in (updatedBlueprint[activeChapterIndex := chapter], Some activeChapterIndex)
             else (blueprint[activeChapterIndex := chapter], Some activeChapterIndex))"

text \<open>
  \<open>autoPlanBlueprint\<close> (services/geminiService.ts): what it makes of the chapters the
  model returned. \<open>uuid\<close> gives the results of \<open>generateUUID()\<close>, one per chapter.
\<close>

record plan_config =
  chapterCount :: int
  wordCountRange :: "int \<times> int"
  newCharCount :: int
  newOrgCount :: int
  customGuidance :: "jsstring option"

record raw_chapter =
  raw_title :: jsstring
  raw_summary :: jsstring
  raw_targetWordCount :: "int option"
  raw_keyEvents :: jsstring
  raw_keyCharacters :: "jsstring list option"
  raw_pacing :: "jsstring option"

definition default_plan_config :: plan_config where
  "default_plan_config =
     \<lparr>chapterCount = 3, wordCountRange = (3000, 5000), newCharCount = 3, newOrgCount = 1,
      customGuidance = None\<rparr>"

definition processChapter :: "plan_config \<Rightarrow> jsstring \<Rightarrow> raw_chapter \<Rightarrow> plot_chapter" where
  "processChapter config uuid c =
     \<lparr>chapter_id = uuid, title = raw_title c, summary = raw_summary c,
      targetWordCount =
        max (fst (wordCountRange config))
            (min (case raw_targetWordCount c of None \<Rightarrow> 3000 | Some n \<Rightarrow> num_or n 3000)
                 (snd (wordCountRange config))),
      keyEvents = raw_keyEvents c, keyCharacters = raw_keyCharacters c,
      pacing = (if truthy (raw_pacing c) then the (raw_pacing c) else js ''standard''),
      status = Pending,
      trackedStats = Some \<lparr>currentWordCount = 0, eventsTriggered = 0, interactionsCount = 0\<rparr>,
      completionCriteria = Some \<lparr>minKeyEvents = 1, minInteractions = 1\<rparr>,
      prerequisites = [], finishedTurnCount = None\<rparr>"

definition processedChapters ::
  "plan_config option \<Rightarrow> (nat \<Rightarrow> jsstring) \<Rightarrow> raw_chapter list \<Rightarrow> plot_chapter list" where
  "processedChapters config uuid rawChapters =
     map (\<lambda>(i, c). processChapter
                     (case config of None \<Rightarrow> default_plan_config | Some cfg \<Rightarrow> cfg) (uuid i) c)
       (enumerate 0 rawChapters)"

text \<open>
  \<open>handleAutoPlanBlueprint\<close>. \<open>outcome\<close> is what the call of
  \<open>GeminiService.autoPlanBlueprint\<close> gave: a failure with its message, or the chapters
  of the model's answer and the new characters, the latter already mapped (random
  affinity and archetype) to supporting characters. The timers that clear the error
  message after three seconds are not modelled.
\<close>

definition handleAutoPlanBlueprint ::
  "plan_config option \<Rightarrow> (jsstring + raw_chapter list \<times> supporting_character list)
     \<Rightarrow> (nat \<Rightarrow> jsstring) \<Rightarrow> engine \<Rightarrow> engine" where
  "handleAutoPlanBlueprint config outcome uuid st =
     (if name (character (ctx st)) = [] then
        st\<lparr>error := Some [35831, 20808, 22312, 12300, 20027, 35282, 26723, 26696, 12301,
                           20013, 22635, 20889, 20027, 35282, 22995, 21517]\<rparr>
      else if genre (ctx st) = [] then
        st\<lparr>error := Some [35831, 20808, 36873, 25321, 25925, 20107, 31867, 22411]\<rparr>
      else
        (case outcome of
           Inl message \<Rightarrow>
             st\<lparr>error := Some (if message \<noteq> [] then message
                                else [35268, 21010, 22833, 36133, 65292, 35831, 26816, 26597,
                                      32593, 32476, 25110, 31245, 21518, 37325, 35797]),
                isLoading := False\<rparr>
         | Inr (rawChapters, mappedNewChars) \<Rightarrow>
             let chapters = processedChapters config uuid rawChapters;
                 prev = ctx st
             in st\<lparr>ctx := prev\<lparr>
                     plotBlueprint :=
                       Some (if config \<noteq> None \<and> length (blueprint_of prev) > 0
                             then blueprint_of prev @ chapters else chapters),
                     supportingCharacters :=
                       supportingCharacters prev @
                       filter (\<lambda>nc. \<not> list_ex (\<lambda>ec. character_name ec = character_name nc)
                                          (supportingCharacters prev))
                         mappedNewChars\<rparr>,
                   error := None, isLoading := False\<rparr>))"

section \<open>SessionEngine: starting a session and advancing a turn\<close>

text \<open>
  \<open>handleStartGame\<close>. \<open>outcome\<close> stands for everything awaited inside the \<open>try\<close>
  block: the opening text, the images, and the checks of the abort signal.
\<close>

datatype start_outcome =
    Start_aborted
  | Start_failed jsstring
  | Start_opened story_segment

definition initialBlueprint :: "game_context \<Rightarrow> plot_chapter list" where
  "initialBlueprint context =
     (case plotBlueprint context of
        None \<Rightarrow> []
      | Some blueprint \<Rightarrow>
          map (\<lambda>(i, c). if i = 0 then c\<lparr>status := Active\<rparr> else c) (enumerate 0 blueprint))"

definition complete_event :: "jsstring option \<Rightarrow> scheduled_event list \<Rightarrow> scheduled_event list" where
  "complete_event triggered events =
     (if truthy triggered
      then map (\<lambda>e. if Some (event_id e) = triggered
                      then e\<lparr>event_status := Event_completed\<rparr> else e) events
      else events)"

definition handleStartGame :: "start_outcome \<Rightarrow> env \<Rightarrow> engine \<Rightarrow> engine" where
  "handleStartGame outcome env st =
     (let context = ctx st in
      if name (character context) = [] \<or> trait (character context) = [] then
        st\<lparr>error := Some [35831, 36755, 20837, 35282, 33394, 22995, 21517, 21644, 24615,
                           26684, 20851, 38190, 35789]\<rparr>
      else
        let newSessionId =
              (if sessionId context \<noteq> [] then sessionId context else sessionUUID env)
        in case outcome of
             Start_aborted \<Rightarrow> st\<lparr>error := None, gameState := LOADING\<rparr>
           | Start_failed message \<Rightarrow>
               st\<lparr>gameState := SETUP_SCREEN,
                  error := Some (if message \<noteq> [] then message
                                 else [65, 73, 21709, 24212, 24322, 24120, 65292, 35831,
                                       37325, 35797, 12290])\<rparr>
           | Start_opened opening \<Rightarrow>
               let openingSegment =
                     opening\<lparr>segment_id := (if segment_id opening \<noteq> [] then segment_id opening
                                               else segmentUUID env)\<rparr>;
                   startingBlueprint =
                     map (\<lambda>chapter.
                            if status chapter = Active
                            then chapter\<lparr>trackedStats := Some (track_stats chapter openingSegment)\<rparr>
                            else chapter)
                       (initialBlueprint context);
                   startingScheduledEvents =
                     complete_event (triggeredEventId openingSegment) (events_of context);
                   newContext = context\<lparr>
                     sessionId := newSessionId,
                     storyName :=
                       Some (if truthy (segment_storyName opening)
                             then the (segment_storyName opening)
                             else if truthy (storyName context) then the (storyName context)
                             else [26410, 21629, 21517, 25925, 20107]),
                     history := [openingSegment],
                     currentSegment := Some openingSegment,
                     lastUpdated := now env,
                     memories := (case newMemories opening of
                                    None \<Rightarrow> DEFAULT_MEMORY | Some m \<Rightarrow> m),
                     plotBlueprint := Some startingBlueprint,
                     scheduledEvents := Some startingScheduledEvents\<rparr>;
                   saveObj =
                     \<lparr>save_id = saveUUID env, save_sessionId = newSessionId,
                      save_storyName = storyName newContext,
                      storyId = Some (segment_id openingSegment), parentId = None,
                      timestamp = now env,
                      save_summary = substring (segment_text openingSegment) 0 50 @ js ''...'',
                      save_location = location openingSegment, save_context = newContext,
                      save_type = AUTO, choiceText = Some [24320, 21551, 26053, 31243],
                      turnCount = 1\<rparr>
               in st\<lparr>ctx := newContext, gameState := PLAYING,
                     savedGames := saveObj # savedGames st,
                     storageWrites := storageWrites st @ [saveObj], error := None\<rparr>)"

text \<open>
  The updater that \<open>handleChoice\<close> passes to \<open>setSavedGames\<close>: the list of save
  points is searched for the pair \<open>(storyId, sessionId)\<close> before the new record is put
  in front.
\<close>

definition alreadySaved :: "saved_game \<Rightarrow> saved_game list \<Rightarrow> bool" where
  "alreadySaved saveObj prevSaves =
     list_ex (\<lambda>s. storyId s = storyId saveObj \<and> save_sessionId s = save_sessionId saveObj)
       prevSaves"

definition autoSave :: "saved_game \<Rightarrow> saved_game list \<Rightarrow> saved_game list" where
  "autoSave saveObj prevSaves =
     (if alreadySaved saveObj prevSaves then prevSaves else saveObj # prevSaves)"

text \<open>
  \<open>(c.affinity || 0) + change\<close> for every character \<open>c\<close> with a truthy
  \<open>affinityChanges[c.name]\<close>. \<open>affinityChanges\<close> is a plain object: for a character
  named like a property it inherits, the value found is a function, and the sum is a
  string.
\<close>

definition add_affinity :: "affinity_value option \<Rightarrow> int \<Rightarrow> affinity_value" where
  "add_affinity a change =
     (case a of
        None \<Rightarrow> Affinity change
      | Some (Affinity n) \<Rightarrow> Affinity (num_or n 0 + change)
      | Some Affinity_text \<Rightarrow> Affinity_text)"

definition applyAffinity ::
  "(jsstring \<rightharpoonup> int) option \<Rightarrow> supporting_character list \<Rightarrow> supporting_character list" where
  "applyAffinity changes chars =
     (case changes of
        None \<Rightarrow> chars
      | Some m \<Rightarrow>
          map (\<lambda>c. case property_of m (character_name c) of
                      Missing \<Rightarrow> c
                    | Own change \<Rightarrow>
                        if change = 0 then c
                        else c\<lparr>affinity := Some (add_affinity (affinity c) change)\<rparr>
                    | Inherited \<Rightarrow> c\<lparr>affinity := Some Affinity_text\<rparr>)
            chars)"

text \<open>The history a turn builds on: \<open>fromIndex\<close> cuts the history for a branching replay.\<close>

definition turn_history :: "game_context \<Rightarrow> int option \<Rightarrow> story_segment list" where
  "turn_history context fromIndex =
     (case fromIndex of
        None \<Rightarrow> history context
      | Some i \<Rightarrow>
          if i < int (length (history context)) - 1
          then slice0 (history context) (i + 1) else history context)"

definition segmentWithChoice ::
  "story_segment \<Rightarrow> jsstring \<Rightarrow> plot_chapter list \<Rightarrow> nat option \<Rightarrow> story_segment" where
  "segmentWithChoice nextSegment choice updatedBlueprint activeChapterIndex =
     nextSegment\<lparr>causedBy := Some choice,
       chapterId := (case activeChapterIndex of
                       None \<Rightarrow> None
                     | Some i \<Rightarrow> Some (chapter_id (updatedBlueprint ! i)))\<rparr>"

text \<open>
  \<open>handleChoice\<close>. \<open>outcome\<close> is the result of the one call of
  \<open>GeminiService.advanceStory\<close>; the second component of the result lists the calls
  made.
\<close>

definition handleChoice ::
  "(jsstring + story_segment) \<Rightarrow> env \<Rightarrow> jsstring \<Rightarrow> int option \<Rightarrow> engine
     \<Rightarrow> engine \<times> advance_request list" where
  "handleChoice outcome env choice fromIndex st =
     (if isLoading st then (st, [])
      else
        let context = ctx st;
            history = turn_history context fromIndex;
            request = \<lparr>request_history = history, request_userChoice = choice,
                       request_plotBlueprint = Some (blueprint_of context),
                       request_mode = Full\<rparr>
        in case outcome of
             Inl e \<Rightarrow>
               (st\<lparr>error := Some [25512, 36827, 21095, 24773, 22833, 36133],
                   isLoading := False\<rparr>, [request])
           | Inr nextSegment \<Rightarrow>
               let (updatedBlueprint, activeChapterIndex) =
                     updateBlueprint (blueprint_of context) nextSegment;
                   updatedSupportingChars =
                     applyAffinity (affinityChanges nextSegment) (supportingCharacters context);
                   updatedEvents =
                     complete_event (triggeredEventId nextSegment) (events_of context);
                   added =
                     segmentWithChoice nextSegment choice updatedBlueprint activeChapterIndex;
                   newContext = context\<lparr>
                     history := history @ [added],
                     currentSegment := Some added,
                     supportingCharacters := updatedSupportingChars,
                     memories := (case newMemories nextSegment of
                                    None \<Rightarrow> memories context | Some m \<Rightarrow> m),
                     scheduledEvents := Some updatedEvents,
                     plotBlueprint := Some updatedBlueprint,
                     lastUpdated := now env,
                     sessionId := (if sessionId context \<noteq> [] then sessionId context
                                   else sessionUUID env)\<rparr>;
                   saveObj =
                     \<lparr>save_id = saveUUID env, save_sessionId = sessionId newContext,
                      save_storyName = storyName newContext,
                      storyId = Some (segment_id added),
                      parentId = (if length history > 0
                                  then Some (segment_id (last history)) else None),
                      timestamp = now env,
                      save_summary = substring (segment_text added) 0 50 @ js ''...'',
                      save_location = location added, save_context = newContext,
                      save_type = AUTO, choiceText = Some choice,
                      turnCount = int (length (history @ [added]))\<rparr>
               in (st\<lparr>ctx := newContext,
                      savedGames := autoSave saveObj (savedGames st),
                      lastAutoSaveId := (if truthy (storyId saveObj) then storyId saveObj
                                         else None),
                      storageWrites := storageWrites st @ [saveObj],
                      isLoading := False\<rparr>, [request]))"

section \<open>SegmentVersionStore: regeneration and version switching\<close>

text \<open>
  \<open>handleRegenerate\<close>. \<open>outcome\<close> is the result of the call of
  \<open>GeminiService.advanceStory\<close>, if one is made; the second component of the result
  lists the calls made. The updater given to \<open>setContext\<close> is applied to the context
  the handler started from: one writer at a time. (\<open>versions.push\<close> also extends the
  array of the segment object it was copied from; nothing below reads that object again.)
\<close>

definition regenerateChoices :: "int \<Rightarrow> nat \<Rightarrow> story_segment \<Rightarrow> game_context \<Rightarrow> game_context" where
  "regenerateChoices time lastIdx newSegment prev =
     (let history' = (history prev)[lastIdx := (history prev ! lastIdx)\<lparr>choices := choices newSegment\<rparr>]
      in prev\<lparr>history := history', currentSegment := Some (history' ! lastIdx),
              lastUpdated := time\<rparr>)"

definition regenerateVersion :: "int \<Rightarrow> nat \<Rightarrow> story_segment \<Rightarrow> game_context \<Rightarrow> game_context" where
  "regenerateVersion time lastIdx newSegment prev =
     (let currentSeg = history prev ! lastIdx;
          currentSeg =
            (case versions currentSeg of
               None \<Rightarrow>
                 currentSeg\<lparr>versions :=
                     Some [\<lparr>version_text = segment_text currentSeg,
                            version_choices = choices currentSeg,
                            version_visualPrompt = visualPrompt currentSeg,
                            version_mood = mood currentSeg, version_location = None\<rparr>],
                   currentVersionIndex := Some 0\<rparr>
             | Some vs \<Rightarrow> currentSeg);
          newVersion =
            \<lparr>version_text = segment_text newSegment, version_choices = choices newSegment,
             version_visualPrompt = visualPrompt newSegment, version_mood = mood newSegment,
             version_location = location newSegment\<rparr>;
          versions' = the (versions currentSeg) @ [newVersion];
          currentSeg = currentSeg\<lparr>
            versions := Some versions',
            currentVersionIndex := Some (int (length versions') - 1),
            segment_text := version_text newVersion, choices := version_choices newVersion,
            visualPrompt := version_visualPrompt newVersion, mood := version_mood newVersion,
            location := version_location newVersion\<rparr>
      in prev\<lparr>history := (history prev)[lastIdx := currentSeg],
              currentSegment := Some currentSeg,
              memories := (case newMemories newSegment of
                             None \<Rightarrow> memories prev | Some m \<Rightarrow> m),
              lastUpdated := time\<rparr>)"

definition handleRegenerate ::
  "(jsstring + story_segment) \<Rightarrow> int \<Rightarrow> regeneration_mode \<Rightarrow> engine
     \<Rightarrow> engine \<times> advance_request list" where
  "handleRegenerate outcome time mode st =
     (let context = ctx st;
          lastIdx = int (length (history context)) - 1
      in if lastIdx < 0 then (st, [])
         else
           let lastSegment = history context ! nat lastIdx
           in if mode \<noteq> Choices \<and> lastIdx > 0 \<and> \<not> truthy (causedBy lastSegment)
              then (st\<lparr>error := Some [26080, 27861, 37325, 26032, 29983, 25104, 27492,
                                       33410, 28857]\<rparr>, [])
              else
                let request =
                      (if mode = Choices
                       then \<lparr>request_history = history context, request_userChoice = [],
                             request_plotBlueprint = plotBlueprint context,
                             request_mode = Choices\<rparr>
                       else \<lparr>request_history = take (nat lastIdx) (history context),
                             request_userChoice =
                               (if truthy (causedBy lastSegment)
                                then the (causedBy lastSegment) else []),
                             request_plotBlueprint = plotBlueprint context,
                             request_mode = mode\<rparr>)
                in case outcome of
                     Inl e \<Rightarrow>
                       (st\<lparr>error := Some [37325, 26032, 29983, 25104, 22833, 36133],
                           isLoading := False\<rparr>, [request])
                   | Inr newSegment \<Rightarrow>
                       (st\<lparr>ctx := (if mode = Choices
                                     then regenerateChoices time (nat lastIdx) newSegment context
                                     else regenerateVersion time (nat lastIdx) newSegment context),
                           error := None, isLoading := False\<rparr>, [request]))"



section \<open>A sample session\<close>

text \<open>
  A two-chapter blueprint as \<open>autoPlanBlueprint\<close> makes it, a session started on it, and
  the three turns of the end-to-end scenario: texts of 100, 150 and 60 characters, the
  second with a triggered event, the third with a key character on stage.
\<close>

definition sample_config :: plan_config where
  "sample_config =
     \<lparr>chapterCount = 2, wordCountRange = (200, 5000), newCharCount = 0, newOrgCount = 0,
      customGuidance = None\<rparr>"

definition sample_raw :: "raw_chapter list" where
  "sample_raw =
     [\<lparr>raw_title = js ''Departure'', raw_summary = js ''Leaving home'',
       raw_targetWordCount = Some 300, raw_keyEvents = js ''The letter'',
       raw_keyCharacters = Some [js ''Lin''], raw_pacing = None\<rparr>,
      \<lparr>raw_title = js ''The road'', raw_summary = js ''Going north'',
       raw_targetWordCount = Some 400, raw_keyEvents = js ''The bridge'',
       raw_keyCharacters = Some [js ''Wu''], raw_pacing = Some (js ''fast'')\<rparr>]"

definition sample_uuid :: "nat \<Rightarrow> jsstring" where
  "sample_uuid i = js ''chapter-'' @ [48 + i]"

definition sample_env :: "int \<Rightarrow> env" where
  "sample_env t =
     \<lparr>now = t, sessionUUID = js ''session-1'', saveUUID = js ''save-'' @ [48 + nat t],
      segmentUUID = js ''segment-'' @ [48 + nat t]\<rparr>"

definition sample_segment ::
  "jsstring \<Rightarrow> nat \<Rightarrow> jsstring option \<Rightarrow> jsstring option \<Rightarrow> story_segment" where
  "sample_segment sid len event who =
     \<lparr>segment_id = sid, segment_text = replicate len 97, choices = [js ''go'', js ''stay''],
      visualPrompt = js ''a road'', mood = js ''peaceful'', activeCharacterName = who,
      location = None, affinityChanges = None, newMemories = None, triggeredEventId = event,
      chapterId = None, segment_storyName = None, causedBy = None, versions = None,
      currentVersionIndex = None\<rparr>"

definition sample_setup :: engine where
  "sample_setup =
     \<lparr>gameState = SETUP_SCREEN,
      ctx = \<lparr>sessionId = [], genre = js ''fantasy'', storyName = None,
             character = \<lparr>name = js ''Ada'', trait = js ''brave''\<rparr>,
             supportingCharacters = [], history = [], currentSegment = None, lastUpdated = 0,
             memories = DEFAULT_MEMORY, scheduledEvents = Some [], plotBlueprint = Some []\<rparr>,
      savedGames = [], isLoading = False, error = None, lastAutoSaveId = None,
      storageWrites = []\<rparr>"

definition sample_planned :: engine where
  "sample_planned =
     handleAutoPlanBlueprint (Some sample_config) (Inr (sample_raw, [])) sample_uuid sample_setup"

definition sample_started :: engine where
  "sample_started =
     handleStartGame (Start_opened (sample_segment (js ''s0'') 0 None None)) (sample_env 1)
       sample_planned"

definition sample_turn1 :: engine where
  "sample_turn1 =
     fst (handleChoice (Inr (sample_segment (js ''s1'') 100 None None)) (sample_env 2)
            (js ''go'') None sample_started)"

definition sample_turn2 :: engine where
  "sample_turn2 =
     fst (handleChoice (Inr (sample_segment (js ''s2'') 150 (Some (js ''e1'')) None))
            (sample_env 3) (js ''go'') None sample_turn1)"

definition sample_turn3 :: engine where
  "sample_turn3 =
     fst (handleChoice (Inr (sample_segment (js ''s3'') 60 None (Some (js ''Lin Mei''))))
            (sample_env 4) (js ''stay'') None sample_turn2)"

text \<open>The sample blueprint, by the state of its first chapter and the status of its second.\<close>

definition sample_blueprint ::
  "chapter_status \<Rightarrow> int \<times> int \<times> int \<Rightarrow> int option \<Rightarrow> chapter_status \<Rightarrow> plot_chapter list" where
  "sample_blueprint status1 counters finished status2 =
     [\<lparr>chapter_id = js ''chapter-0'', title = js ''Departure'', summary = js ''Leaving home'',
       targetWordCount = 300, keyEvents = js ''The letter'', keyCharacters = Some [js ''Lin''],
       pacing = js ''standard'', status = status1,
       trackedStats = Some \<lparr>currentWordCount = fst counters,
                               eventsTriggered = fst (snd counters),
                               interactionsCount = snd (snd counters)\<rparr>,
       completionCriteria = Some \<lparr>minKeyEvents = 1, minInteractions = 1\<rparr>,
       prerequisites = [], finishedTurnCount = finished\<rparr>,
      \<lparr>chapter_id = js ''chapter-1'', title = js ''The road'', summary = js ''Going north'',
       targetWordCount = 400, keyEvents = js ''The bridge'', keyCharacters = Some [js ''Wu''],
       pacing = js ''fast'', status = status2,
       trackedStats = Some \<lparr>currentWordCount = 0, eventsTriggered = 0, interactionsCount = 0\<rparr>,
       completionCriteria = Some \<lparr>minKeyEvents = 1, minInteractions = 1\<rparr>,
       prerequisites = [], finishedTurnCount = None\<rparr>]"

text \<open>A save point of the sample session, by its own identifier.\<close>

definition sample_save :: "jsstring \<Rightarrow> saved_game" where
  "sample_save sid =
     \<lparr>save_id = sid, save_sessionId = js ''session-1'', save_storyName = None,
      storyId = Some (js ''s1''), parentId = Some (js ''s0''), timestamp = 2,
      save_summary = js ''aaa...'', save_location = None, save_context = ctx sample_setup,
      save_type = AUTO, choiceText = Some (js ''go''), turnCount = 2\<rparr>"

text \<open>A context whose second and last segment has no \<open>causedBy\<close>.\<close>

definition sample_orphan :: engine where
  "sample_orphan =
     sample_setup\<lparr>ctx := (ctx sample_setup)\<lparr>
       history := [sample_segment (js ''s0'') 10 None None,
                   sample_segment (js ''s1'') 20 None None],
       currentSegment := Some (sample_segment (js ''s1'') 20 None None)\<rparr>\<rparr>"

definition sample_choices :: story_segment where
  "sample_choices =
     (sample_segment (js ''s2'') 30 None None)\<lparr>choices := [js ''wait'', js ''run'']\<rparr>"




section \<open>Counting the active chapters\<close>

definition active_count :: "plot_chapter list \<Rightarrow> nat" where
  "active_count blueprint = length (filter (\<lambda>c. status c = Active) blueprint)"


section \<open>The earlier \<open>handleChoice\<close> (hooks/useGameEngine.ts)\<close>

text \<open>
  The version of the hook under \<open>hooks/\<close> advances a turn as above, except that the new
  context takes the blueprint of the old one as it is and the new segment gets no
  \<open>chapterId\<close>.
\<close>

definition handleChoice_hooks ::
  "(jsstring + story_segment) \<Rightarrow> env \<Rightarrow> jsstring \<Rightarrow> int option \<Rightarrow> engine
     \<Rightarrow> engine \<times> advance_request list" where
  "handleChoice_hooks outcome env choice fromIndex st =
     (if isLoading st then (st, [])
      else
        let context = ctx st;
            history = turn_history context fromIndex;
            request = \<lparr>request_history = history, request_userChoice = choice,
                       request_plotBlueprint = Some (blueprint_of context),
                       request_mode = Full\<rparr>
        in case outcome of
             Inl e \<Rightarrow>
               (st\<lparr>error := Some [25512, 36827, 21095, 24773, 22833, 36133],
                   isLoading := False\<rparr>, [request])
           | Inr nextSegment \<Rightarrow>
               let updatedSupportingChars =
                     applyAffinity (affinityChanges nextSegment) (supportingCharacters context);
                   updatedEvents =
                     complete_event (triggeredEventId nextSegment) (events_of context);
                   added = nextSegment\<lparr>causedBy := Some choice\<rparr>;
                   newContext = context\<lparr>
                     history := history @ [added],
                     currentSegment := Some added,
                     supportingCharacters := updatedSupportingChars,
                     memories := (case newMemories nextSegment of
                                    None \<Rightarrow> memories context | Some m \<Rightarrow> m),
                     scheduledEvents := Some updatedEvents,
                     lastUpdated := now env,
                     sessionId := (if sessionId context \<noteq> [] then sessionId context
                                   else sessionUUID env)\<rparr>;
                   saveObj =
                     \<lparr>save_id = saveUUID env, save_sessionId = sessionId newContext,
                      save_storyName = storyName newContext,
                      storyId = Some (segment_id added),
                      parentId = (if length history > 0
                                  then Some (segment_id (last history)) else None),
                      timestamp = now env,
                      save_summary = substring (segment_text added) 0 50 @ js ''...'',
                      save_location = location added, save_context = newContext,
                      save_type = AUTO, choiceText = Some choice,
                      turnCount = int (length (history @ [added]))\<rparr>
               in (st\<lparr>ctx := newContext,
                      savedGames := autoSave saveObj (savedGames st),
                      lastAutoSaveId := (if truthy (storyId saveObj) then storyId saveObj
                                         else None),
                      storageWrites := storageWrites st @ [saveObj],
                      isLoading := False\<rparr>, [request]))"


section \<open>Loading a save point\<close>

text \<open>
  \<open>handleLoadGame\<close>: the context of the save point becomes the context of the hook; with
  \<open>forceSetup\<close>, or for a save of the set-up, the set-up screen is shown, from which
  \<open>handleStartGame\<close> starts a session. The background image and the identifier of the
  loaded save point, which the handler also sets, are not part of the state modelled.
\<close>

definition handleLoadGame :: "saved_game \<Rightarrow> bool \<Rightarrow> engine \<Rightarrow> engine" where
  "handleLoadGame save forceSetup st =
     st\<lparr>ctx := (save_context save)\<lparr>
             scheduledEvents := Some (events_of (save_context save)),
             plotBlueprint := Some (blueprint_of (save_context save))\<rparr>,
        gameState := (if forceSetup \<or> save_type save = SETUP then SETUP_SCREEN else PLAYING)\<rparr>"

text \<open>What identifies a save point: its own identifier and the pair it was made for.\<close>

definition save_key :: "saved_game \<Rightarrow> jsstring \<times> jsstring \<times> jsstring option" where
  "save_key s = (save_id s, save_sessionId s, storyId s)"



section \<open>More of the sample session\<close>

text \<open>
  The session restarted from the save point of the third turn, loaded onto the set-up
  screen.
\<close>

definition sample_loaded :: engine where
  "sample_loaded = handleLoadGame (last (storageWrites sample_turn3)) True sample_turn3"

definition sample_restarted :: engine where
  "sample_restarted =
     handleStartGame (Start_opened (sample_segment (js ''s4'') 0 None None)) (sample_env 5)
       sample_loaded"

text \<open>
  A first turn in which an event is triggered and a key character is on stage, taken by
  the earlier \<open>handleChoice\<close> and by the later one.
\<close>

definition sample_eventful :: story_segment where
  "sample_eventful = sample_segment (js ''s1'') 100 (Some (js ''e1'')) (Some (js ''Lin Mei''))"






section \<open>Properties\<close>

subsection \<open>FallbackInvoker\<close>





subsection \<open>ResponseNormalizer\<close>

lemma indexOf_found:
  "indexOf xs x \<noteq> - 1 \<Longrightarrow>
     0 \<le> indexOf xs x \<and> nat (indexOf xs x) < length xs \<and> xs ! nat (indexOf xs x) = x"
proof (induction xs)
  case Nil
  then show ?case by simp
next
  case (Cons y ys)
  show ?case
  proof (cases "y = x")
    case True
    then show ?thesis by simp
  next
    case False
    with Cons.prems have ne: "indexOf ys x \<noteq> - 1" by (auto simp: Let_def split: if_splits)
    from Cons.IH [OF ne] False ne show ?thesis
      by (simp add: Let_def nat_add_distrib)
  qed
qed

lemma bracket_pair_start:
  assumes "bracket_pair cleaned = (startIndex, endIndex, isArray)" and "startIndex \<noteq> - 1"
  shows "0 \<le> startIndex \<and> nat startIndex < length cleaned
         \<and> cleaned ! nat startIndex = (if isArray then 91 else 123)"
  using assms indexOf_found [of cleaned 123] indexOf_found [of cleaned 91]
  by (auto simp: bracket_pair_def Let_def split: if_splits)

lemma substring_from_start:
  assumes "0 \<le> a" and "nat a < length s" and "a \<le> e"
  shows "substring s a (e + 1) \<noteq> [] \<and> hd (substring s a (e + 1)) = s ! nat a"
proof -
  have lt: "a < int (length s)" using assms by linarith
  define b where "b = min (e + 1) (int (length s))"
  have b: "a < b" "0 \<le> b" using assms lt by (auto simp: b_def)
  have "substring s a (e + 1) = take (nat b - nat a) (drop (nat a) s)"
    using assms lt b by (simp add: substring_def Let_def b_def min_def max_def)
  moreover have "nat a < nat b" using assms b by linarith
  ultimately show ?thesis using assms by (simp add: hd_drop_conv_nth take_eq_Nil not_le)
qed

lemma trim_nonempty:
  assumes "xs \<noteq> []" and "\<not> is_space (hd xs)"
  shows "trim xs \<noteq> []"
proof -
  from assms obtain y ys where xs: "xs = y # ys" and y: "\<not> is_space y" by (cases xs) auto
  have "dropWhile is_space (rev ys @ [y]) \<noteq> []"
    using y by (simp add: dropWhile_eq_Nil_conv)
  then show ?thesis using xs y by (simp add: trim_def)
qed

lemma cleanJson_extracted:
  assumes "text \<noteq> []"
    and "bracket_pair (trim (strip_fences text)) = (startIndex, endIndex, isArray)"
    and "startIndex \<noteq> - 1" and "endIndex \<noteq> - 1" and "startIndex \<le> endIndex"
  shows "cleanJson text =
           trim (filter (\<lambda>c. \<not> is_control c)
                   (substring (trim (strip_fences text)) startIndex (endIndex + 1)))
         \<and> cleanJson text \<noteq> []"
proof -
  let ?c = "trim (strip_fences text)"
  let ?sub = "substring ?c startIndex (endIndex + 1)"
  from bracket_pair_start [OF assms(2,3)]
  have st: "0 \<le> startIndex" "nat startIndex < length ?c"
    and ch: "?c ! nat startIndex = (if isArray then 91 else 123)" by auto
  from substring_from_start [OF st assms(5)]
  have sub: "?sub \<noteq> []" "hd ?sub = ?c ! nat startIndex" by auto
  have opener: "\<not> is_control (hd ?sub)" "\<not> is_space (hd ?sub)"
    using sub ch by (auto simp: is_control_def is_space_def)
  obtain y ys where yys: "?sub = y # ys" using sub by (cases ?sub) auto
  have "filter (\<lambda>c. \<not> is_control c) ?sub \<noteq> [] \<and> hd (filter (\<lambda>c. \<not> is_control c) ?sub) = hd ?sub"
    using opener yys by simp
  with opener have "trim (filter (\<lambda>c. \<not> is_control c) ?sub) \<noteq> []"
    by (intro trim_nonempty) auto
  then show ?thesis using assms by (simp add: cleanJson_def Let_def)
qed

lemma cleanJson_not_located:
  assumes "bracket_pair (trim (strip_fences text)) = (startIndex, endIndex, isArray)"
    and "startIndex = - 1 \<or> endIndex = - 1 \<or> endIndex < startIndex"
  shows "cleanJson text = js ''{}''"
  using assms by (auto simp: cleanJson_def Let_def)

text \<open>
  C4. The normalizer is total and gives \<open>{}\<close> whenever it locates no bracket pair
  (\<open>cleanJson_not_located\<close>), also when an array opener was found: on the truncated
  array \<open>[1, 2\<close> it finds \<open>[\<close> at position 0 and no \<open>]\<close>, sets \<open>isArray\<close>,
  and returns \<open>{}\<close>, not \<open>[]\<close>. When it does locate a pair, the extracted text keeps
  its opening bracket (\<open>cleanJson_extracted\<close>), so the fallback
  \<open>isArray ? "[]" : "{}"\<close> is never taken.
\<close>

theorem cleanJson_truncated_array:
  "cleanJson (js ''[1, 2'') = js ''{}''
   \<and> bracket_pair (trim (strip_fences (js ''[1, 2''))) = (0, - 1, True)"
  by (simp add: cleanJson_def js_def trim_def is_space_def bracket_pair_def lastIndexOf_def
        fence_def)

subsection \<open>ChapterTracker\<close>

lemma num_or_zero: "num_or x 0 = x"
  by (simp add: num_or_def)

lemma includes_str_sublist: "includes_str s k \<longleftrightarrow> sublist k s"
  by (induction s) (auto simp: sublist_Cons_right)

lemma findIndex_Some:
  "findIndex p xs = Some i \<Longrightarrow> i < length xs \<and> p (xs ! i) \<and> (\<forall>j<i. \<not> p (xs ! j))"
proof (induction xs arbitrary: i)
  case Nil
  then show ?case by simp
next
  case (Cons x xs)
  show ?case
  proof (cases "p x")
    case True
    with Cons.prems show ?thesis by simp
  next
    case False
    with Cons.prems obtain k where k: "findIndex p xs = Some k" "i = Suc k" by auto
    from Cons.IH [OF k(1)] False k(2) show ?thesis
      by (auto simp: nth_Cons split: nat.splits)
  qed
qed

lemma findIndex_None: "findIndex p xs = None \<Longrightarrow> \<forall>x \<in> set xs. \<not> p x"
  by (induction xs) (auto split: if_splits)

lemma handleChoice_blueprint:
  "\<not> isLoading st \<Longrightarrow>
   blueprint_of (ctx (fst (handleChoice (Inr nextSegment) env choice fromIndex st))) =
     fst (updateBlueprint (blueprint_of (ctx st)) nextSegment)"
  by (simp add: handleChoice_def Let_def blueprint_of_def split: prod.splits)

lemma updateBlueprint_length:
  "length (fst (updateBlueprint blueprint nextSegment)) = length blueprint"
  by (simp add: updateBlueprint_def Let_def split: option.splits)

lemma updateBlueprint_active:
  assumes "findIndex (\<lambda>c. status c = Active) blueprint = Some i"
  shows "fst (updateBlueprint blueprint nextSegment) ! i =
           (let chapter = (blueprint ! i)\<lparr>trackedStats := Some (track_stats (blueprint ! i) nextSegment)\<rparr>
            in if isComplete (blueprint ! i) (track_stats (blueprint ! i) nextSegment)
               then chapter\<lparr>status := Completed,
                      finishedTurnCount :=
                        Some ((case finishedTurnCount (blueprint ! i) of None \<Rightarrow> 0 | Some n \<Rightarrow> n) + 1)\<rparr>
               else chapter)"
  using assms findIndex_Some [OF assms]
  by (simp add: updateBlueprint_def Let_def isComplete_def criteria_of_def num_or_zero
        cong: option.case_cong)

lemma updateBlueprint_others:
  assumes "findIndex (\<lambda>c. status c = Active) blueprint = Some i"
    and "j < length blueprint" and "j \<noteq> i"
  shows "fst (updateBlueprint blueprint nextSegment) ! j =
           (if j = i + 1 \<and> isComplete (blueprint ! i) (track_stats (blueprint ! i) nextSegment)
            then (blueprint ! j)\<lparr>status := Active\<rparr> else blueprint ! j)"
  using assms findIndex_Some [OF assms(1)]
  by (auto simp: updateBlueprint_def Let_def isComplete_def criteria_of_def)


lemma track_stats_fields:
  "track_stats chapter segment =
     \<lparr>currentWordCount = currentWordCount (stats_of chapter) + int (length (segment_text segment)),
      eventsTriggered = eventsTriggered (stats_of chapter)
                        + (if truthy (triggeredEventId segment) then 1 else 0),
      interactionsCount = interactionsCount (stats_of chapter)
                        + (if isKeyInteraction chapter segment then 1 else 0)\<rparr>"
  by (simp add: track_stats_def Let_def)

lemma isKeyInteraction_iff:
  "isKeyInteraction chapter segment \<longleftrightarrow>
     (\<exists>n kcs kc. activeCharacterName segment = Some n \<and> n \<noteq> [] \<and>
        keyCharacters chapter = Some kcs \<and> kc \<in> set kcs \<and> sublist kc n)"
  by (auto simp: isKeyInteraction_def list_ex_iff includes_str_sublist split: option.splits)

lemma truthy_iff: "truthy x \<longleftrightarrow> (\<exists>s. x = Some s \<and> s \<noteq> [])"
  by (simp add: truthy_def split: option.splits)

text \<open>
  The bookkeeping of \<open>handleChoice\<close>: a turn that succeeds while a chapter is active
  adds the length of the new segment's text to that chapter's \<open>currentWordCount\<close>, adds one to
  \<open>eventsTriggered\<close> exactly when the segment carries a (non-empty)
  \<open>triggeredEventId\<close>, adds one to \<open>interactionsCount\<close> exactly when the segment
  carries a (non-empty) \<open>activeCharacterName\<close> that contains one of the chapter's key
  character names, and leaves the stats of every other chapter as they were.
\<close>

theorem handleChoice_tracks_stats:
  fixes st :: engine and nextSegment :: story_segment and env :: env
    and choice :: jsstring and fromIndex :: "int option"
  assumes "\<not> isLoading st"
    and "findIndex (\<lambda>c. status c = Active) (blueprint_of (ctx st)) = Some i"
  defines "before \<equiv> blueprint_of (ctx st)"
    and "after \<equiv> blueprint_of (ctx (fst (handleChoice (Inr nextSegment) env choice fromIndex st)))"
  shows "length after = length before \<and>
         trackedStats (after ! i) =
           Some \<lparr>currentWordCount =
                    currentWordCount (stats_of (before ! i)) + int (length (segment_text nextSegment)),
                  eventsTriggered =
                    eventsTriggered (stats_of (before ! i))
                    + (if (\<exists>e. triggeredEventId nextSegment = Some e \<and> e \<noteq> []) then 1 else 0),
                  interactionsCount =
                    interactionsCount (stats_of (before ! i))
                    + (if (\<exists>n kcs kc. activeCharacterName nextSegment = Some n \<and> n \<noteq> [] \<and>
                             keyCharacters (before ! i) = Some kcs \<and> kc \<in> set kcs \<and>
                             sublist kc n)
                       then 1 else 0)\<rparr> \<and>
         (\<forall>j < length before. j \<noteq> i \<longrightarrow> trackedStats (after ! j) = trackedStats (before ! j))"
proof -
  have after: "after = fst (updateBlueprint before nextSegment)"
    unfolding after_def before_def using assms(1) by (rule handleChoice_blueprint)
  have active: "findIndex (\<lambda>c. status c = Active) before = Some i"
    using assms(2) by (simp add: before_def)
  have "length after = length before"
    by (simp add: after updateBlueprint_length)
  moreover have "trackedStats (after ! i) = Some (track_stats (before ! i) nextSegment)"
    by (simp add: after updateBlueprint_active [OF active] Let_def)
  moreover have "\<forall>j < length before. j \<noteq> i \<longrightarrow> trackedStats (after ! j) = trackedStats (before ! j)"
    by (simp add: after updateBlueprint_others [OF active])
  ultimately show ?thesis
    by (simp only: track_stats_fields isKeyInteraction_iff truthy_iff)
qed


subsection \<open>PersistenceCoordinator\<close>

text \<open>
  The updater of \<open>setSavedGames\<close>, run a second time for the same
  \<open>(sessionId, storyId)\<close>, finds the first record and inserts nothing: the list of
  save points in memory holds exactly one record for the pair when it held none before.
\<close>

theorem autoSave_twice:
  fixes first second :: saved_game
  assumes "storyId second = storyId first"
    and "save_sessionId second = save_sessionId first"
  defines "same \<equiv> (\<lambda>s. storyId s = storyId first \<and> save_sessionId s = save_sessionId first)"
  shows "autoSave second (autoSave first prevSaves) = autoSave first prevSaves \<and>
         alreadySaved second (autoSave first prevSaves) \<and>
         length (filter same (autoSave second (autoSave first prevSaves))) =
           (if alreadySaved first prevSaves then length (filter same prevSaves) else 1)"
proof -
  have none: "filter same prevSaves = []" if "\<not> alreadySaved first prevSaves"
    using that by (auto simp: alreadySaved_def same_def list_ex_iff filter_empty_conv)
  have again: "alreadySaved second (autoSave first prevSaves)"
    using assms(1,2) by (auto simp: alreadySaved_def autoSave_def list_ex_iff)
  then have "autoSave second (autoSave first prevSaves) = autoSave first prevSaves"
    by (simp add: autoSave_def)
  moreover have "length (filter same (autoSave first prevSaves)) =
           (if alreadySaved first prevSaves then length (filter same prevSaves) else 1)"
    using none by (simp add: autoSave_def same_def)
  ultimately show ?thesis using again by simp
qed

subsection \<open>The sample session, evaluated\<close>

lemma handleChoice_isLoading:
  "\<not> isLoading st \<Longrightarrow> \<not> isLoading (fst (handleChoice outcome env choice fromIndex st))"
  by (simp add: handleChoice_def Let_def split: sum.splits prod.splits)

lemma sample_planned_eval:
  "blueprint_of (ctx sample_planned) = sample_blueprint Pending (0, 0, 0) None Pending"
  "plotBlueprint (ctx sample_planned) = Some (sample_blueprint Pending (0, 0, 0) None Pending)"
  "\<not> isLoading sample_planned"
  "name (character (ctx sample_planned)) = js ''Ada''"
  "trait (character (ctx sample_planned)) = js ''brave''"
  by (simp_all add: sample_planned_def sample_setup_def sample_config_def sample_raw_def
        sample_uuid_def sample_blueprint_def handleAutoPlanBlueprint_def processedChapters_def
        processChapter_def js_def blueprint_of_def truthy_def num_or_def Let_def)

lemma sample_started_eval:
  "blueprint_of (ctx sample_started) = sample_blueprint Active (0, 0, 0) None Pending"
  "\<not> isLoading sample_started"
proof -
  have "initialBlueprint (ctx sample_planned) = sample_blueprint Active (0, 0, 0) None Pending"
    by (simp add: initialBlueprint_def sample_planned_eval(2)) (simp add: sample_blueprint_def)
  then show "blueprint_of (ctx sample_started) = sample_blueprint Active (0, 0, 0) None Pending"
    by (simp add: sample_started_def handleStartGame_def Let_def sample_planned_eval js_def
          blueprint_of_def)
       (simp add: sample_blueprint_def sample_segment_def track_stats_def stats_of_def
          truthy_def isKeyInteraction_def Let_def)
  show "\<not> isLoading sample_started"
    by (simp add: sample_started_def handleStartGame_def Let_def sample_planned_eval js_def)
qed

lemma sample_turn1_eval:
  "blueprint_of (ctx sample_turn1) = sample_blueprint Active (100, 0, 0) None Pending"
  "\<not> isLoading sample_turn1"
  unfolding sample_turn1_def
  by (simp_all add: handleChoice_blueprint handleChoice_isLoading sample_started_eval)
     (simp add: sample_blueprint_def sample_segment_def updateBlueprint_def track_stats_def
        stats_of_def truthy_def isKeyInteraction_def isComplete_def criteria_of_def num_or_def
        Let_def)

lemma sample_turn2_eval:
  "blueprint_of (ctx sample_turn2) = sample_blueprint Active (250, 1, 0) None Pending"
  "\<not> isLoading sample_turn2"
  unfolding sample_turn2_def
  by (simp_all add: handleChoice_blueprint handleChoice_isLoading sample_turn1_eval)
     (simp add: sample_blueprint_def sample_segment_def updateBlueprint_def track_stats_def
        stats_of_def truthy_def isKeyInteraction_def isComplete_def criteria_of_def num_or_def
        Let_def js_def)

lemma sample_turn3_eval:
  "blueprint_of (ctx sample_turn3) = sample_blueprint Completed (310, 1, 1) (Some 1) Active"
  unfolding sample_turn3_def
  by (simp add: handleChoice_blueprint handleChoice_isLoading sample_turn2_eval)
     (simp add: sample_blueprint_def sample_segment_def updateBlueprint_def track_stats_def
        stats_of_def truthy_def isKeyInteraction_def isComplete_def criteria_of_def num_or_def
        Let_def js_def)



theorem handleChoice_tracks_stats_witness:
  "trackedStats (blueprint_of (ctx sample_turn3) ! 0) =
     Some \<lparr>currentWordCount = 310, eventsTriggered = 1, interactionsCount = 1\<rparr> \<and>
   trackedStats (blueprint_of (ctx sample_turn3) ! 1) =
     trackedStats (blueprint_of (ctx sample_turn2) ! 1)"
proof -
  have idle: "\<not> isLoading sample_turn2"
    by (rule sample_turn2_eval)
  have active: "findIndex (\<lambda>c. status c = Active) (blueprint_of (ctx sample_turn2)) = Some 0"
    by (simp add: sample_turn2_eval sample_blueprint_def)
  have who: "sublist (js ''Lin'') (js ''Lin Mei'')"
    by (simp add: js_def sublist_Cons_right)
  show ?thesis
    using handleChoice_tracks_stats [OF idle active,
        of "sample_segment (js ''s3'') 60 None (Some (js ''Lin Mei''))" "sample_env 4"
           "js ''stay''" None] who
    by (simp add: sample_turn3_def [symmetric] sample_turn2_eval stats_of_def less_Suc_eq)
       (simp add: sample_blueprint_def sample_segment_def js_def)
qed

theorem autoSave_twice_witness:
  "autoSave (sample_save (js ''save-b'')) (autoSave (sample_save (js ''save-a'')) []) =
     [sample_save (js ''save-a'')]"
proof -
  have same: "storyId (sample_save (js ''save-b'')) = storyId (sample_save (js ''save-a''))"
    "save_sessionId (sample_save (js ''save-b'')) = save_sessionId (sample_save (js ''save-a''))"
    by (simp_all add: sample_save_def)
  show ?thesis
    using autoSave_twice [OF same, of "[]"]
    by (simp add: autoSave_def alreadySaved_def)
qed

subsection \<open>At most one active chapter\<close>

text \<open>
  A turn and a blueprint extension never raise the number of active chapters above one,
  and a session started on a blueprint without an active chapter has at most one.
\<close>

lemma at_most_one_iff:
  "length (filter P xs) \<le> 1 \<longleftrightarrow>
     (\<forall>i<length xs. \<forall>j<length xs. P (xs ! i) \<longrightarrow> P (xs ! j) \<longrightarrow> i = j)"
proof (induction xs)
  case Nil
  show ?case by simp
next
  case (Cons x xs)
  let ?R = "\<forall>i<length (x # xs). \<forall>j<length (x # xs).
              P ((x # xs) ! i) \<longrightarrow> P ((x # xs) ! j) \<longrightarrow> i = j"
  show ?case
  proof (cases "P x")
    case True
    have "(\<forall>k<length xs. \<not> P (xs ! k)) \<longleftrightarrow> ?R"
    proof
      assume none: "\<forall>k<length xs. \<not> P (xs ! k)"
      show ?R
      proof (intro allI impI)
        fix i j
        assume "i < length (x # xs)" "j < length (x # xs)" "P ((x # xs) ! i)" "P ((x # xs) ! j)"
        with none show "i = j" by (cases i; cases j) auto
      qed
    next
      assume R: ?R
      show "\<forall>k<length xs. \<not> P (xs ! k)"
      proof (intro allI impI notI)
        fix k
        assume "k < length xs" "P (xs ! k)"
        with R [rule_format, of 0 "Suc k"] True show False by simp
      qed
    qed
    moreover have "length (filter P (x # xs)) \<le> 1 \<longleftrightarrow> (\<forall>k<length xs. \<not> P (xs ! k))"
      using True by (simp add: filter_empty_conv all_set_conv_all_nth)
    ultimately show ?thesis by simp
  next
    case False
    have "(\<forall>i<length xs. \<forall>j<length xs. P (xs ! i) \<longrightarrow> P (xs ! j) \<longrightarrow> i = j) \<longleftrightarrow> ?R"
    proof
      assume tail: "\<forall>i<length xs. \<forall>j<length xs. P (xs ! i) \<longrightarrow> P (xs ! j) \<longrightarrow> i = j"
      show ?R
      proof (intro allI impI)
        fix i j
        assume "i < length (x # xs)" "j < length (x # xs)" "P ((x # xs) ! i)" "P ((x # xs) ! j)"
        with tail False show "i = j" by (cases i; cases j) auto
      qed
    next
      assume R: ?R
      show "\<forall>i<length xs. \<forall>j<length xs. P (xs ! i) \<longrightarrow> P (xs ! j) \<longrightarrow> i = j"
      proof (intro allI impI)
        fix i j
        assume "i < length xs" "j < length xs" "P (xs ! i)" "P (xs ! j)"
        with R [rule_format, of "Suc i" "Suc j"] show "i = j" by simp
      qed
    qed
    moreover have "length (filter P (x # xs)) \<le> 1 \<longleftrightarrow> length (filter P xs) \<le> 1"
      using False by simp
    ultimately show ?thesis using Cons.IH by simp
  qed
qed

lemma updateBlueprint_at_most_one:
  assumes "active_count blueprint \<le> 1"
  shows "active_count (fst (updateBlueprint blueprint nextSegment)) \<le> 1"
proof (cases "findIndex (\<lambda>c. status c = Active) blueprint")
  case None
  then show ?thesis using assms by (simp add: updateBlueprint_def)
next
  case (Some a)
  let ?after = "fst (updateBlueprint blueprint nextSegment)"
  note first = findIndex_Some [OF Some]
  have len: "length ?after = length blueprint" by (rule updateBlueprint_length)
  have "\<forall>i<length blueprint. \<forall>j<length blueprint.
          status (blueprint ! i) = Active \<longrightarrow> status (blueprint ! j) = Active \<longrightarrow> i = j"
    using assms unfolding active_count_def at_most_one_iff .
  then have only: "i = a" if "i < length blueprint" "status (blueprint ! i) = Active" for i
    using that first by blast
  have where_active: "i = a \<or> i = a + 1 \<and> status (?after ! a) \<noteq> Active"
    if i: "i < length blueprint" and act: "status (?after ! i) = Active" for i
  proof (cases "i = a")
    case True
    then show ?thesis by simp
  next
    case False
    have "i = a + 1 \<and> isComplete (blueprint ! a) (track_stats (blueprint ! a) nextSegment)"
      using act only [OF i] False
      by (auto simp: updateBlueprint_others [OF Some i False] split: if_splits)
    then show ?thesis
      by (simp add: updateBlueprint_active [OF Some] Let_def)
  qed
  show ?thesis
    unfolding active_count_def at_most_one_iff len
  proof (intro allI impI)
    fix i j
    assume "i < length blueprint" "j < length blueprint"
      and "status (?after ! i) = Active" "status (?after ! j) = Active"
    then show "i = j"
      using where_active [of i] where_active [of j] by auto
  qed
qed

lemma map_first_only:
  "0 < n \<Longrightarrow> map (\<lambda>(i, c). if i = 0 then f c else c) (enumerate n xs) = xs"
  by (induction xs arbitrary: n) simp_all

lemma initialBlueprint_Cons:
  "initialBlueprint c =
     (case blueprint_of c of [] \<Rightarrow> [] | x # xs \<Rightarrow> x\<lparr>status := Active\<rparr> # xs)"
  by (simp add: initialBlueprint_def blueprint_of_def map_first_only
        split: option.splits list.splits)

lemma processedChapters_pending:
  "\<forall>c \<in> set (processedChapters config uuid rawChapters). status c = Pending"
  by (auto simp: processedChapters_def processChapter_def)

lemma active_count_pending:
  "\<forall>c \<in> set blueprint. status c = Pending \<Longrightarrow> active_count blueprint = 0"
  by (auto simp: active_count_def filter_empty_conv)

lemma active_count_append:
  "active_count (xs @ ys) = active_count xs + active_count ys"
  by (simp add: active_count_def)

lemma handleAutoPlanBlueprint_blueprint:
  "blueprint_of (ctx (handleAutoPlanBlueprint config outcome uuid st)) = blueprint_of (ctx st) \<or>
   (\<exists>raw. blueprint_of (ctx (handleAutoPlanBlueprint config outcome uuid st)) =
            blueprint_of (ctx st) @ processedChapters config uuid raw) \<or>
   (\<exists>raw. blueprint_of (ctx (handleAutoPlanBlueprint config outcome uuid st)) =
            processedChapters config uuid raw)"
  by (auto simp: handleAutoPlanBlueprint_def Let_def blueprint_of_def
           split: sum.splits prod.splits)

lemma handleAutoPlanBlueprint_active_count:
  "active_count (blueprint_of (ctx (handleAutoPlanBlueprint config outcome uuid st)))
     \<le> active_count (blueprint_of (ctx st))"
  using handleAutoPlanBlueprint_blueprint [of config outcome uuid st]
  by (auto simp: active_count_append active_count_pending processedChapters_pending)

lemma handleStartGame_active_count:
  assumes "active_count (blueprint_of (ctx st)) = 0"
  shows "active_count (blueprint_of (ctx (handleStartGame (Start_opened opening) env st))) \<le> 1"
proof -
  have none: "filter (\<lambda>c. status c = Active) (blueprint_of (ctx st)) = []"
    using assms by (simp add: active_count_def)
  have "active_count (initialBlueprint (ctx st)) \<le> 1"
    using none
    by (cases "blueprint_of (ctx st)")
       (simp_all add: initialBlueprint_Cons active_count_def split: if_splits)
  moreover have "active_count (map (\<lambda>chapter. if status chapter = Active
                    then chapter\<lparr>trackedStats := Some (f chapter)\<rparr> else chapter) xs)
                 = active_count xs" for f xs
    by (induction xs) (simp_all add: active_count_def)
  ultimately show ?thesis
    using assms by (simp add: handleStartGame_def Let_def blueprint_of_def)
qed

lemma handleChoice_active_count:
  assumes "active_count (blueprint_of (ctx st)) \<le> 1"
  shows "active_count (blueprint_of (ctx (fst (handleChoice outcome env choice fromIndex st)))) \<le> 1"
proof (cases "isLoading st")
  case True
  then show ?thesis using assms by (simp add: handleChoice_def)
next
  case False
  show ?thesis
  proof (cases outcome)
    case (Inl e)
    then show ?thesis using assms False by (simp add: handleChoice_def Let_def)
  next
    case (Inr nextSegment)
    then show ?thesis
      using assms False updateBlueprint_at_most_one [of "blueprint_of (ctx st)" nextSegment]
      by (simp add: handleChoice_blueprint)
  qed
qed

subsection \<open>SegmentVersionStore\<close>










subsection \<open>Regeneration\<close>

text \<open>
  C8. A regeneration in mode \<open>choices\<close> that succeeds replaces the choices of the last
  segment of the history by the new ones; the text and the visual prompt of that segment,
  all its other fields, and all other segments stay as they were.
\<close>

theorem handleRegenerate_choices_frame:
  fixes st :: engine and newSegment :: story_segment and time :: int
  assumes "history (ctx st) \<noteq> []"
  defines "lastIdx \<equiv> length (history (ctx st)) - 1"
    and "result \<equiv> ctx (fst (handleRegenerate (Inr newSegment) time Choices st))"
  shows "length (history result) = length (history (ctx st)) \<and>
         history result ! lastIdx = (history (ctx st) ! lastIdx)\<lparr>choices := choices newSegment\<rparr> \<and>
         choices (history result ! lastIdx) = choices newSegment \<and>
         segment_text (history result ! lastIdx) = segment_text (history (ctx st) ! lastIdx) \<and>
         visualPrompt (history result ! lastIdx) = visualPrompt (history (ctx st) ! lastIdx) \<and>
         (\<forall>j < lastIdx. history result ! j = history (ctx st) ! j) \<and>
         currentSegment result = Some (history result ! lastIdx)"
proof -
  have pos: "0 < length (history (ctx st))" using assms(1) by simp
  then have idx: "nat (int (length (history (ctx st))) - 1) = lastIdx"
    by (simp add: lastIdx_def nat_diff_distrib')
  have "result = regenerateChoices time lastIdx newSegment (ctx st)"
    using pos idx by (simp add: result_def handleRegenerate_def Let_def)
  moreover have "lastIdx < length (history (ctx st))" using pos by (simp add: lastIdx_def)
  ultimately show ?thesis by (simp add: regenerateChoices_def Let_def)
qed

theorem handleRegenerate_choices_frame_witness:
  "history (ctx (fst (handleRegenerate (Inr sample_choices) 9 Choices sample_orphan))) =
     [sample_segment (js ''s0'') 10 None None,
      (sample_segment (js ''s1'') 20 None None)\<lparr>choices := [js ''wait'', js ''run'']\<rparr>]"
proof -
  have ne: "history (ctx sample_orphan) \<noteq> []" by (simp add: sample_orphan_def)
  show ?thesis
    using handleRegenerate_choices_frame [OF ne, of sample_choices 9]
    by (simp add: sample_orphan_def sample_choices_def list_eq_iff_nth_eq less_Suc_eq)
qed

text \<open>
  C9, as amended. A regeneration in mode \<open>full\<close> or \<open>text\<close> of a last segment that is
  not the opening one and has no \<open>causedBy\<close> sets the error message for a node that
  cannot be regenerated, makes no call to the content backend and leaves the game context
  unchanged.
\<close>

theorem handleRegenerate_rejects_orphan:
  assumes "mode \<noteq> Choices"
    and "1 < length (history (ctx st))"
    and "\<not> truthy (causedBy (last (history (ctx st))))"
  shows "handleRegenerate outcome time mode st =
           (st\<lparr>error := Some [26080, 27861, 37325, 26032, 29983, 25104, 27492, 33410, 28857]\<rparr>,
            [])"
proof -
  have ne: "history (ctx st) \<noteq> []" using assms(2) by auto
  then have "history (ctx st) ! nat (int (length (history (ctx st))) - 1) = last (history (ctx st))"
    by (simp add: last_conv_nth nat_diff_distrib')
  then show ?thesis using assms ne by (simp add: handleRegenerate_def Let_def)
qed

theorem handleRegenerate_rejects_orphan_witness:
  "handleRegenerate (Inr sample_choices) 9 Full sample_orphan =
     (sample_orphan\<lparr>error := Some [26080, 27861, 37325, 26032, 29983, 25104, 27492, 33410,
                                      28857]\<rparr>, [])"
proof -
  have "Full \<noteq> Choices" "1 < length (history (ctx sample_orphan))"
    "\<not> truthy (causedBy (last (history (ctx sample_orphan))))"
    by (simp_all add: sample_orphan_def sample_segment_def truthy_def)
  then show ?thesis by (rule handleRegenerate_rejects_orphan)
qed

text \<open>
  C9, as stated, fails in mode \<open>choices\<close>, which the guard exempts: on a history of
  two segments whose last has no \<open>causedBy\<close>, the backend is called, no error is set and
  the context changes.
\<close>

theorem handleRegenerate_choices_counterexample:
  "0 < int (length (history (ctx sample_orphan))) - 1 \<and>
   \<not> truthy (causedBy (last (history (ctx sample_orphan)))) \<and>
   error (fst (handleRegenerate (Inr sample_choices) 9 Choices sample_orphan)) = None \<and>
   snd (handleRegenerate (Inr sample_choices) 9 Choices sample_orphan) =
     [\<lparr>request_history = history (ctx sample_orphan), request_userChoice = [],
       request_plotBlueprint = Some [], request_mode = Choices\<rparr>] \<and>
   ctx (fst (handleRegenerate (Inr sample_choices) 9 Choices sample_orphan)) \<noteq> ctx sample_orphan"
  by (simp add: handleRegenerate_def regenerateChoices_def sample_orphan_def sample_choices_def
        sample_segment_def sample_setup_def truthy_def js_def Let_def)

subsection \<open>Branching replay\<close>

text \<open>
  C10, as amended. A turn that succeeds with \<open>- 1 \<le> fromIndex < history.length - 1\<close>
  leaves the history up to and including position \<open>fromIndex\<close> (nothing of it for
  \<open>- 1\<close>) followed by the new segment (the generated one, with the choice and the
  chapter recorded in it), which becomes the current segment; the later segments are
  dropped.
\<close>

theorem handleChoice_branching_replay:
  fixes st :: engine and nextSegment :: story_segment and env :: env and choice :: jsstring
  assumes "\<not> isLoading st"
    and "- 1 \<le> fromIndex" and "fromIndex < int (length (history (ctx st))) - 1"
  defines "result \<equiv> ctx (fst (handleChoice (Inr nextSegment) env choice (Some fromIndex) st))"
  shows "\<exists>added. history result = take (nat (fromIndex + 1)) (history (ctx st)) @ [added] \<and>
                 currentSegment result = Some added \<and>
                 added = nextSegment\<lparr>causedBy := Some choice, chapterId := chapterId added\<rparr>"
proof -
  have cut: "turn_history (ctx st) (Some fromIndex) =
               take (nat (fromIndex + 1)) (history (ctx st))"
    using assms(2,3) by (simp add: turn_history_def slice0_def)
  show ?thesis
    using assms(1)
    by (simp add: result_def handleChoice_def Let_def cut segmentWithChoice_def
          split: prod.splits)
qed

lemma handleChoice_segment_ids:
  "\<not> isLoading st \<Longrightarrow>
   map segment_id (history (ctx (fst (handleChoice (Inr nextSegment) env choice fromIndex st)))) =
     map segment_id (turn_history (ctx st) fromIndex) @ [segment_id nextSegment]"
  by (simp add: handleChoice_def Let_def segmentWithChoice_def split: prod.splits)

lemma sample_turn2_history:
  "map segment_id (history (ctx sample_turn2)) = [js ''s0'', js ''s1'', js ''s2'']"
proof -
  have "map segment_id (history (ctx sample_started)) = [js ''s0'']"
    by (simp add: sample_started_def handleStartGame_def Let_def sample_planned_eval js_def)
       (simp add: sample_segment_def js_def)
  then show ?thesis
    by (simp add: sample_turn2_def sample_turn1_def handleChoice_segment_ids turn_history_def
          handleChoice_isLoading sample_started_eval)
       (simp add: sample_segment_def)
qed

theorem handleChoice_branching_replay_witness:
  "map (\<lambda>fromIndex.
          map segment_id
            (history (ctx (fst (handleChoice (Inr (sample_segment (js ''s9'') 40 None None))
                                  (sample_env 4) (js ''stay'') (Some fromIndex) sample_turn2)))))
     [0, 1, - 1] =
     [[js ''s0'', js ''s9''], [js ''s0'', js ''s1'', js ''s9''], [js ''s9'']]"
proof -
  let ?turn = "\<lambda>fromIndex. ctx (fst (handleChoice (Inr (sample_segment (js ''s9'') 40 None None))
                                       (sample_env 4) (js ''stay'') (Some fromIndex) sample_turn2))"
  have idle: "\<not> isLoading sample_turn2" by (rule sample_turn2_eval)
  have len: "length (history (ctx sample_turn2)) = 3"
    using arg_cong [OF sample_turn2_history, of length] by simp
  have kept: "map segment_id (take n (history (ctx sample_turn2))) =
                take n [js ''s0'', js ''s1'', js ''s2'']" for n
    using arg_cong [OF sample_turn2_history, of "take n"] by (simp add: take_map)
  have ids: "map segment_id (history (?turn fromIndex)) =
               take (nat (fromIndex + 1)) [js ''s0'', js ''s1'', js ''s2''] @ [js ''s9'']"
    if "- 1 \<le> fromIndex" "fromIndex < 2" for fromIndex
  proof -
    have range: "fromIndex < int (length (history (ctx sample_turn2))) - 1"
      using that by (simp add: len)
    from handleChoice_branching_replay [OF idle that(1) range,
           of "sample_segment (js ''s9'') 40 None None" "sample_env 4" "js ''stay''"]
    obtain added where
      hist: "history (?turn fromIndex) =
               take (nat (fromIndex + 1)) (history (ctx sample_turn2)) @ [added]"
      and eq: "added = (sample_segment (js ''s9'') 40 None None)\<lparr>causedBy := Some (js ''stay''),
                      chapterId := chapterId added\<rparr>"
      by auto
    have "segment_id added = js ''s9''"
      using arg_cong [OF eq, of segment_id] by (simp add: sample_segment_def)
    then show ?thesis by (simp add: hist kept)
  qed
  show ?thesis
    using ids [of 0] ids [of 1] ids [of "- 1"] by simp
qed

text \<open>
  C10, as stated for every \<open>fromIndex\<close> below \<open>history.length - 1\<close>, fails from
  \<open>- 2\<close> downwards, where \<open>slice(0, fromIndex + 1)\<close> counts from the end of the
  history: with \<open>fromIndex = - 2\<close> on a history of three segments the first two are
  kept.
\<close>

theorem handleChoice_negative_counterexample:
  "map segment_id (history (ctx sample_turn2)) = [js ''s0'', js ''s1'', js ''s2''] \<and>
   (- 2 :: int) < int (length (history (ctx sample_turn2))) - 1 \<and>
   map segment_id
     (history (ctx (fst (handleChoice (Inr (sample_segment (js ''s9'') 40 None None))
                           (sample_env 4) (js ''stay'') (Some (- 2)) sample_turn2)))) =
     [js ''s0'', js ''s1'', js ''s9'']"
proof -
  have len: "length (history (ctx sample_turn2)) = 3"
    using arg_cong [OF sample_turn2_history, of length] by simp
  have kept: "map segment_id (take 2 (history (ctx sample_turn2))) = [js ''s0'', js ''s1'']"
    using arg_cong [OF sample_turn2_history, of "take 2"] by (simp add: take_map)
  have "turn_history (ctx sample_turn2) (Some (- 2)) = take 2 (history (ctx sample_turn2))"
    by (simp add: turn_history_def slice0_def len)
  then show ?thesis
    by (simp add: handleChoice_segment_ids sample_turn2_eval sample_turn2_history len kept)
       (simp add: sample_segment_def)
qed

subsection \<open>What a turn keeps and what it writes\<close>

lemma handleChoice_hooks_blueprint:
  "plotBlueprint (ctx (fst (handleChoice_hooks outcome env choice fromIndex st))) =
     plotBlueprint (ctx st)"
  by (simp add: handleChoice_hooks_def Let_def split: sum.splits)

lemma handleChoice_hooks_segment_ids:
  "\<not> isLoading st \<Longrightarrow>
   map segment_id (history (ctx (fst (handleChoice_hooks (Inr nextSegment) env choice None st)))) =
     map segment_id (history (ctx st)) @ [segment_id nextSegment]"
  by (simp add: handleChoice_hooks_def Let_def turn_history_def)

lemma handleChoice_character:
  "character (ctx (fst (handleChoice outcome env choice fromIndex st))) = character (ctx st)"
  by (simp add: handleChoice_def Let_def split: sum.splits prod.splits)


lemma handleChoice_last_write:
  "\<not> isLoading st \<Longrightarrow>
   save_context (last (storageWrites (fst (handleChoice (Inr nextSegment) env choice fromIndex st)))) =
     ctx (fst (handleChoice (Inr nextSegment) env choice fromIndex st))"
  by (simp add: handleChoice_def Let_def split: prod.splits)




lemma sample_planned_rest:
  "sessionId (ctx sample_planned) = []"
  "savedGames sample_planned = []"
  "storageWrites sample_planned = []"
  "character (ctx sample_planned) = \<lparr>name = js ''Ada'', trait = js ''brave''\<rparr>"
  by (simp_all add: sample_planned_def sample_setup_def handleAutoPlanBlueprint_def js_def
        Let_def)

lemma sample_started_saves:
  "map save_key (savedGames sample_started) = [(js ''save-1'', js ''session-1'', Some (js ''s0''))]"
  "map save_key (storageWrites sample_started) =
     [(js ''save-1'', js ''session-1'', Some (js ''s0''))]"
  "sessionId (ctx sample_started) = js ''session-1''"
  "character (ctx sample_started) = \<lparr>name = js ''Ada'', trait = js ''brave''\<rparr>"
  by (simp_all add: sample_started_def handleStartGame_def Let_def sample_planned_rest
        save_key_def)
     (simp_all add: sample_env_def sample_segment_def js_def)

subsection \<open>The earlier handler and the bookkeeping\<close>

text \<open>
  C2. In the earlier \<open>handleChoice\<close> a turn that succeeds while a chapter is active,
  with a triggered event and a key character on stage, leaves the three counters of the
  active chapter at zero; the later \<open>handleChoice\<close> takes them to 100, 1 and 1 on the
  same turn.
\<close>

theorem handleChoice_hooks_leaves_stats:
  "status (blueprint_of (ctx sample_started) ! 0) = Active \<and>
   map segment_id
     (history (ctx (fst (handleChoice_hooks (Inr sample_eventful) (sample_env 2) (js ''go'')
                           None sample_started)))) = [js ''s0'', js ''s1''] \<and>
   map trackedStats
     (blueprint_of (ctx (fst (handleChoice_hooks (Inr sample_eventful) (sample_env 2) (js ''go'')
                                None sample_started)))) =
     [Some \<lparr>currentWordCount = 0, eventsTriggered = 0, interactionsCount = 0\<rparr>,
      Some \<lparr>currentWordCount = 0, eventsTriggered = 0, interactionsCount = 0\<rparr>] \<and>
   map trackedStats
     (blueprint_of (ctx (fst (handleChoice (Inr sample_eventful) (sample_env 2) (js ''go'')
                                None sample_started)))) =
     [Some \<lparr>currentWordCount = 100, eventsTriggered = 1, interactionsCount = 1\<rparr>,
      Some \<lparr>currentWordCount = 0, eventsTriggered = 0, interactionsCount = 0\<rparr>]"
proof -
  have ids: "map segment_id (history (ctx sample_started)) = [js ''s0'']"
    by (simp add: sample_started_def handleStartGame_def Let_def sample_planned_eval js_def)
       (simp add: sample_segment_def js_def)
  have earlier: "blueprint_of (ctx (fst (handleChoice_hooks (Inr sample_eventful) (sample_env 2)
                                          (js ''go'') None sample_started))) =
                 sample_blueprint Active (0, 0, 0) None Pending"
    using sample_started_eval(1)
    by (simp add: blueprint_of_def handleChoice_hooks_blueprint)
  have later: "blueprint_of (ctx (fst (handleChoice (Inr sample_eventful) (sample_env 2)
                                        (js ''go'') None sample_started))) =
               sample_blueprint Active (100, 1, 1) None Pending"
    by (simp add: handleChoice_blueprint sample_started_eval)
       (simp add: sample_blueprint_def sample_eventful_def sample_segment_def updateBlueprint_def
          track_stats_def stats_of_def truthy_def isKeyInteraction_def isComplete_def
          criteria_of_def num_or_def Let_def js_def)
  show ?thesis
    by (simp add: earlier later handleChoice_hooks_segment_ids sample_started_eval ids)
       (simp add: sample_blueprint_def sample_eventful_def sample_segment_def)
qed

subsection \<open>A session started from a loaded save point\<close>

lemma sample_loaded_eval:
  "plotBlueprint (ctx sample_loaded) =
     Some (sample_blueprint Completed (310, 1, 1) (Some 1) Active)"
  "character (ctx sample_loaded) = \<lparr>name = js ''Ada'', trait = js ''brave''\<rparr>"
  "gameState sample_loaded = SETUP_SCREEN"
proof -
  have saved: "save_context (last (storageWrites sample_turn3)) = ctx sample_turn3"
    unfolding sample_turn3_def using sample_turn2_eval(2) by (rule handleChoice_last_write)
  have who: "character (ctx sample_turn3) = \<lparr>name = js ''Ada'', trait = js ''brave''\<rparr>"
    by (simp add: sample_turn3_def sample_turn2_def sample_turn1_def handleChoice_character
          sample_started_saves)
  show "plotBlueprint (ctx sample_loaded) =
          Some (sample_blueprint Completed (310, 1, 1) (Some 1) Active)"
    by (simp add: sample_loaded_def handleLoadGame_def saved sample_turn3_eval)
  show "character (ctx sample_loaded) = \<lparr>name = js ''Ada'', trait = js ''brave''\<rparr>"
    by (simp add: sample_loaded_def handleLoadGame_def saved who)
  show "gameState sample_loaded = SETUP_SCREEN"
    by (simp add: sample_loaded_def handleLoadGame_def)
qed

text \<open>
  C3. The third turn of the sample session leaves chapter 0 completed and chapter 1
  active, and writes a save point. Loading that save point onto the set-up screen and
  starting the session activates chapter 0 and leaves chapter 1 as it is: two chapters
  are active.
\<close>

theorem handleStartGame_two_active:
  "map status (blueprint_of (ctx sample_turn3)) = [Completed, Active] \<and>
   gameState sample_loaded = SETUP_SCREEN \<and>
   gameState sample_restarted = PLAYING \<and>
   map status (blueprint_of (ctx sample_restarted)) = [Active, Active] \<and>
   length (filter (\<lambda>chapter. status chapter = Active) (blueprint_of (ctx sample_restarted))) = 2"
proof -
  have initial: "initialBlueprint (ctx sample_loaded) =
                   sample_blueprint Active (310, 1, 1) (Some 1) Active"
    by (simp add: initialBlueprint_def sample_loaded_eval) (simp add: sample_blueprint_def)
  have restarted: "map status (blueprint_of (ctx sample_restarted)) = [Active, Active]"
    by (simp add: sample_restarted_def handleStartGame_def Let_def sample_loaded_eval js_def
          blueprint_of_def initial)
       (simp add: sample_blueprint_def)
  have playing: "gameState sample_restarted = PLAYING"
    by (simp add: sample_restarted_def handleStartGame_def Let_def sample_loaded_eval js_def)
  have "length (filter (\<lambda>s. s = Active) (map status (blueprint_of (ctx sample_restarted)))) = 2"
    by (simp add: restarted)
  then have two: "length (filter (\<lambda>chapter. status chapter = Active)
                            (blueprint_of (ctx sample_restarted))) = 2"
    by (simp add: filter_map comp_def)
  show ?thesis
    by (simp add: sample_turn3_eval sample_loaded_eval restarted playing two)
       (simp add: sample_blueprint_def)
qed

subsection \<open>Save points written twice\<close>


end
